theory Spec2Isabelle
  imports
    Complex_Main
    "HOL-Library.Char_ord"
    "HOL-Library.List_Lexorder"
    "HOL-Library.Word"
begin

unbundle bit_operations_syntax

section \<open>Python values\<close>

text \<open>
  The configuration values handled by \<^verbatim>\<open>fsrl/utils/exp_util.py\<close>: \<^verbatim>\<open>None\<close>, booleans,
  unbounded integers, floats, strings, lists and dictionaries with string keys.

  A float is a NaN, an infinity or a finite number. A NaN carries the identity of its
  object, because it is the one value that \<^verbatim>\<open>==\<close> does not find equal to itself while the
  comparison of lists and dictionaries tests identity first. A finite float is kept with
  its exact value and with the text \<^verbatim>\<open>str\<close> gives for it (the shortest decimal that reads
  back as the same float), which this development does not compute.

  A dictionary is an association list in insertion order; a Python dictionary never holds
  a key twice, which is the invariant \<open>wf_val\<close>.
\<close>

datatype pyfloat = NaN nat | PosInf | NegInf | Finite rat string

datatype pyval =
    VNone
  | VBool bool
  | VInt int
  | VFloat pyfloat
  | VStr string
  | VList "pyval list"
  | VDict "(string \<times> pyval) list"

type_synonym config = "(string \<times> pyval) list"


text \<open>\<^verbatim>\<open>d.keys()\<close>, in insertion order.\<close>

definition keys :: "(string \<times> 'a) list \<Rightarrow> string list" where
  "keys d = map fst d"

text \<open>\<^verbatim>\<open>str(n)\<close> for an integer: decimal digits, a leading minus sign when negative.\<close>

fun digits :: "nat \<Rightarrow> string" where
  "digits n = (if n < 10 then [''0123456789'' ! n]
               else digits (n div 10) @ [''0123456789'' ! (n mod 10)])"

declare digits.simps [simp del]

definition str_int :: "int \<Rightarrow> string" where
  "str_int i = (if i < 0 then CHR ''-'' # digits (nat (- i)) else digits (nat i))"

text \<open>
  \<^verbatim>\<open>str(v)\<close> for the values that are neither a sequence nor a mapping. The last two
  equations only make the function total: \<open>to_string\<close> calls it on scalars alone.
\<close>

fun str_float :: "pyfloat \<Rightarrow> string" where
  "str_float (NaN i) = ''nan''"
| "str_float PosInf = ''inf''"
| "str_float NegInf = ''-inf''"
| "str_float (Finite q s) = s"

fun str_scalar :: "pyval \<Rightarrow> string" where
  "str_scalar VNone = ''None''"
| "str_scalar (VBool b) = (if b then ''True'' else ''False'')"
| "str_scalar (VInt i) = str_int i"
| "str_scalar (VFloat x) = str_float x"
| "str_scalar (VStr s) = s"
| "str_scalar (VList vs) = []"
| "str_scalar (VDict d) = []"

text \<open>
  The numeric value of a boolean, an integer or a float; a NaN has none. Python compares
  numbers of different types by their exact values.
\<close>

datatype numval = Number rat | PlusInfinity | MinusInfinity

fun num_value :: "pyval \<Rightarrow> numval option" where
  "num_value (VBool b) = Some (Number (of_bool b))"
| "num_value (VInt i) = Some (Number (of_int i))"
| "num_value (VFloat (Finite q s)) = Some (Number q)"
| "num_value (VFloat PosInf) = Some PlusInfinity"
| "num_value (VFloat NegInf) = Some MinusInfinity"
| "num_value (VFloat (NaN i)) = None"
| "num_value VNone = None"
| "num_value (VStr s) = None"
| "num_value (VList vs) = None"
| "num_value (VDict d) = None"

text \<open>
  The identity test \<^verbatim>\<open>x is y\<close> that the comparison of lists and dictionaries makes on
  their elements before it tries \<^verbatim>\<open>==\<close>. Among the values of this development it matters
  for NaN objects only: every other object is equal to itself anyway.
\<close>

fun same_object :: "pyval \<Rightarrow> pyval \<Rightarrow> bool" where
  "same_object (VFloat (NaN i)) (VFloat (NaN j)) = (i = j)"
| "same_object a b = False"

text \<open>
  Python's \<^verbatim>\<open>==\<close>: numbers by value (a NaN is equal to nothing), strings by content, lists
  elementwise, dictionaries by size and by the value found under each key of the left
  operand; values of different kinds are unequal.
\<close>

function (sequential) py_eq :: "pyval \<Rightarrow> pyval \<Rightarrow> bool" where
  "py_eq (VList xs) (VList ys) = list_all2 (\<lambda>x y. same_object x y \<or> py_eq x y) xs ys"
| "py_eq (VDict a) (VDict b) =
     (length a = length b \<and>
      list_all (\<lambda>(k, v). case map_of b k of
                            None \<Rightarrow> False
                          | Some v' \<Rightarrow> same_object v v' \<or> py_eq v v') a)"
| "py_eq (VStr s) (VStr t) = (s = t)"
| "py_eq VNone VNone = True"
| "py_eq a b =
     (case num_value a of
        None \<Rightarrow> False
      | Some x \<Rightarrow> (case num_value b of None \<Rightarrow> False | Some y \<Rightarrow> x = y))"
  by pat_completeness auto
termination
proof (relation "measure (\<lambda>(a, b). size a)")
  show "wf (measure (\<lambda>(a, b). size a))" by simp
next
  fix xs ys :: "pyval list" and x y
  assume "x \<in> set xs"
  then have "size x < Suc (size_list size xs)"
    by (induction xs) auto
  then show "((x, y), (VList xs, VList ys)) \<in> measure (\<lambda>(a, b). size a)"
    by simp
next
  fix a b :: "(string \<times> pyval) list" and kv :: "string \<times> pyval" and k v v'
  assume "kv \<in> set a" and "(k, v) = kv"
  then have "(k, v) \<in> set a" by simp
  then have "size v < Suc (size_list (size_prod (\<lambda>_. 0) size) a)"
    by (induction a) auto
  then show "((v, v'), (VDict a, VDict b)) \<in> measure (\<lambda>(a, b). size a)"
    by simp
qed

text \<open>Truth value of an object in a condition (\<^verbatim>\<open>if x:\<close>).\<close>

fun truthy :: "pyval \<Rightarrow> bool" where
  "truthy VNone = False"
| "truthy (VBool b) = b"
| "truthy (VInt i) = (i \<noteq> 0)"
| "truthy (VFloat x) = (case x of Finite q s \<Rightarrow> q \<noteq> 0 | _ \<Rightarrow> True)"
| "truthy (VStr s) = (s \<noteq> [])"
| "truthy (VList vs) = (vs \<noteq> [])"
| "truthy (VDict d) = (d \<noteq> [])"

text \<open>\<^verbatim>\<open>d.get(k, default)\<close>.\<close>

definition dict_get :: "config \<Rightarrow> string \<Rightarrow> pyval \<Rightarrow> pyval" where
  "dict_get d k dflt = (case map_of d k of None \<Rightarrow> dflt | Some v \<Rightarrow> v)"

section \<open>Exceptions and observable events\<close>

text \<open>
  A message is either a finished string or a template with the arguments handed to
  \<^verbatim>\<open>str.format\<close>, kept apart so that the text written in the source stays visible.
\<close>

datatype message = Msg string | Format string "pyval list"

fun template :: "message \<Rightarrow> string" where
  "template (Msg s) = s"
| "template (Format t args) = t"

text \<open>
  The exception classes the file raises or catches. \<open>LibError\<close> stands for any other
  exception raised inside a library call (\<^verbatim>\<open>yaml\<close>, \<^verbatim>\<open>torch\<close>, \<^verbatim>\<open>json\<close>).
\<close>

datatype exn =
    KeyError string
  | ValueError string
  | TypeError string
  | AttributeError string
  | ModuleNotFoundError string
  | FileNotFoundError string
  | UnregisteredEnv message
  | LibError string

datatype event =
    Print "pyval list"
  | Open string
  | TorchLoad string
  | LogInfo string

section \<open>\<^verbatim>\<open>seed_all\<close>\<close>

text \<open>The process-wide random state written by lines 27 to 35.\<close>

record rng_state =
  random_seed :: "int option"
  pythonhashseed :: "string option"
  numpy_seed :: "int option"
  torch_seed :: "int option"
  cuda_seed :: "int option"
  cuda_seed_all :: "int option"
  cudnn_benchmark :: bool
  cudnn_deterministic :: bool

text \<open>
  An object handed over in \<^verbatim>\<open>others\<close>: whether it has a \<^verbatim>\<open>seed\<close> attribute, the exception
  that calling it raises (if any), and the seeds it has received so far.
\<close>

record obj =
  has_seed :: bool
  seed_raises :: "exn option"
  seeded :: "int list"

text \<open>
  Objects live in a store and are handed over by reference, so that one object can occur
  several times in a collection.
\<close>

type_synonym ref = nat

type_synonym store = "ref \<Rightarrow> obj"

text \<open>
  \<^verbatim>\<open>others\<close> is a single object, or a collection (an iterable without a \<^verbatim>\<open>seed\<close>
  attribute of its own) of objects.
\<close>

datatype others = Single ref | Collection "ref list"

text \<open>
  Lines 27 to 35. \<^verbatim>\<open>np.random.seed\<close> (line 29) raises \<^verbatim>\<open>ValueError\<close> for a seed outside
  \<open>0 .. 2 ^ 32 - 1\<close>; it is not inside any \<^verbatim>\<open>try\<close>, so the call ends there, after lines 27
  and 28 have run. The other calls accept every seed that \<^verbatim>\<open>np.random.seed\<close> accepts.
\<close>

definition seed_globals :: "int \<Rightarrow> rng_state \<Rightarrow> rng_state \<times> exn option" where
  "seed_globals seed st =
     (let st = st\<lparr>random_seed := Some seed\<rparr>;
          st = st\<lparr>pythonhashseed := Some (str_int seed)\<rparr>
      in if 0 \<le> seed \<and> seed < 2 ^ 32 then
           (st\<lparr>numpy_seed := Some seed,
               torch_seed := Some seed,
               cuda_seed := Some seed,
               cuda_seed_all := Some seed,
               cudnn_benchmark := False,
               cudnn_deterministic := True\<rparr>,
            None)
         else (st, Some (ValueError ''Seed must be between 0 and 2**32 - 1'')))"

text \<open>\<^verbatim>\<open>x.seed(seed)\<close>.\<close>

definition call_seed :: "int \<Rightarrow> obj \<Rightarrow> exn + obj" where
  "call_seed seed x =
     (case seed_raises x of
        Some e \<Rightarrow> Inl e
      | None \<Rightarrow> Inr (x\<lparr>seeded := seeded x @ [seed]\<rparr>))"

text \<open>
  The \<^verbatim>\<open>for item in others\<close> loop of lines 41 to 43: the store as the loop leaves it, and
  the exception that ended it, if one did.
\<close>

fun seed_items :: "int \<Rightarrow> ref list \<Rightarrow> store \<Rightarrow> store \<times> exn option" where
  "seed_items seed [] h = (h, None)"
| "seed_items seed (item # rest) h =
     (if has_seed (h item) then
        (case call_seed seed (h item) of
           Inl e \<Rightarrow> (h, Some e)
         | Inr x \<Rightarrow> seed_items seed rest (h(item := x)))
      else seed_items seed rest h)"

text \<open>
  \<^verbatim>\<open>seed_all(seed, others)\<close>: the new process-wide state, the store as the call leaves it,
  and the outcome: an exception, or the returned value (\<^verbatim>\<open>True\<close> on line 39, \<^verbatim>\<open>None\<close>
  otherwise).
\<close>

definition seed_all ::
  "int \<Rightarrow> others option \<Rightarrow> rng_state \<Rightarrow> store \<Rightarrow> rng_state \<times> store \<times> (exn + pyval)" where
  "seed_all seed oth st h =
     (case seed_globals seed st of
        (st', Some e) \<Rightarrow> (st', h, Inl e)
      | (st', None) \<Rightarrow>
          (case oth of
             None \<Rightarrow> (st', h, Inr VNone)
           | Some (Single x) \<Rightarrow>
               (if has_seed (h x) then
                  (case call_seed seed (h x) of
                     Inl e \<Rightarrow> (st', h, Inl e)
                   | Inr x' \<Rightarrow> (st', h(x := x'), Inr (VBool True)))
                else \<comment> \<open>iterating a non-iterable raises inside the \<^verbatim>\<open>try\<close>; \<^verbatim>\<open>except: pass\<close>\<close>
                  (st', h, Inr VNone))
           | Some (Collection items) \<Rightarrow>
               (case seed_items seed items h of
                  (h', r) \<Rightarrow> \<comment> \<open>whatever \<open>r\<close> is, \<^verbatim>\<open>except: pass\<close> discards it\<close>
                    (st', h', Inr VNone))))"

section \<open>\<^verbatim>\<open>load_config_and_model\<close>\<close>

text \<open>A file system: the directories that exist and the files with their contents.\<close>

record fs =
  dirs :: "string list"
  files :: "(string \<times> string) list"

definition osp_exists :: "fs \<Rightarrow> string \<Rightarrow> bool" where
  "osp_exists f p = (p \<in> set (dirs f) \<or> p \<in> set (keys (files f)))"

text \<open>\<^verbatim>\<open>os.path.join(a, b)\<close> on a POSIX system.\<close>

definition osp_join :: "string \<Rightarrow> string \<Rightarrow> string" where
  "osp_join a b =
     (if b \<noteq> [] \<and> hd b = CHR ''/'' then b
      else if a = [] \<or> last a = CHR ''/'' then a @ b
      else a @ ''/'' @ b)"

text \<open>\<^verbatim>\<open>open(p).read()\<close>.\<close>

definition read_file :: "fs \<Rightarrow> string \<Rightarrow> exn + string" where
  "read_file f p =
     (case map_of (files f) p of
        None \<Rightarrow> Inl (FileNotFoundError p)
      | Some text \<Rightarrow> Inr text)"

text \<open>Lines 81 to 83: the name of the checkpoint file.\<close>

definition model_file :: "bool \<Rightarrow> int option \<Rightarrow> string" where
  "model_file best epoch_model_number =
     (let model_file =
            (case epoch_model_number of
               Some n \<Rightarrow> ''model_epoch-'' @ str_int n @ ''.pt''
             | None \<Rightarrow> ''model.pt'');
          model_file = (if best then ''model_best.pt'' else model_file)
      in model_file)"

definition model_path :: "string \<Rightarrow> bool \<Rightarrow> int option \<Rightarrow> string" where
  "model_path path best epoch_model_number =
     osp_join path (''checkpoint/'' @ model_file best epoch_model_number)"

text \<open>
  \<^verbatim>\<open>load_config_and_model(path, best, epoch_model_number)\<close>. The parsers are parameters:
  \<open>yaml_load\<close> is \<^verbatim>\<open>yaml.load\<close> on the text of the file, \<open>torch_load\<close> is \<^verbatim>\<open>torch.load\<close> on
  a path; each returns its result or the description of the exception it raised. The
  result comes with the trace of what the call printed and which files it asked for.
\<close>

definition load_config_and_model ::
  "(string \<Rightarrow> string + pyval) \<Rightarrow> (string \<Rightarrow> string + 'm) \<Rightarrow> fs \<Rightarrow>
     string \<Rightarrow> bool \<Rightarrow> int option \<Rightarrow> event list \<times> (exn + pyval \<times> 'm)" where
  "load_config_and_model yaml_load torch_load f path best epoch_model_number =
     (if osp_exists f path then
        (let config_file = osp_join path ''config.yaml'';
             tr1 = [Print [VStr (''load config from '' @ config_file)], Open config_file]
         in case read_file f config_file of
              Inl e \<Rightarrow> (tr1, Inl e)
            | Inr text \<Rightarrow>
                (case yaml_load text of
                   Inl m \<Rightarrow> (tr1, Inl (LibError m))
                 | Inr config \<Rightarrow>
                     (let mp = model_path path best epoch_model_number;
                          tr2 = tr1 @ [Print [VStr (''load model from '' @ mp)], TorchLoad mp]
                      in case torch_load mp of
                           Inl m \<Rightarrow> (tr2, Inl (LibError m))
                         | Inr model \<Rightarrow> (tr2, Inr (config, model)))))
      else ([], Inl (ValueError (path @ '' doesn't exist!''))))"

definition is_file_access :: "event \<Rightarrow> bool" where
  "is_file_access ev = (case ev of Open p \<Rightarrow> True | TorchLoad p \<Rightarrow> True | _ \<Rightarrow> False)"

section \<open>\<^verbatim>\<open>to_string\<close> and \<^verbatim>\<open>auto_name\<close>\<close>

text \<open>
  The accumulation \<^verbatim>\<open>name += prefix + part\<close> over \<^verbatim>\<open>enumerate\<close>, where the prefix is
  empty for index 0 and an underscore afterwards.
\<close>

definition join_enum :: "string list \<Rightarrow> string" where
  "join_enum parts =
     foldl (\<lambda>name (i, s). name @ (if i = 0 then [] else ''_'') @ s) []
       (enumerate 0 parts)"

text \<open>
  \<^verbatim>\<open>to_string(values)\<close>. In the mapping branch \<open>k\<close> ranges over the keys of \<open>d\<close>, so the
  lookup \<^verbatim>\<open>values[k]\<close> always finds an entry.
\<close>

function to_string :: "pyval \<Rightarrow> string" where
  "to_string (VList vs) = join_enum (map to_string vs)"
| "to_string (VDict d) =
     join_enum (map (\<lambda>k. to_string (the (map_of d k))) (sort (keys d)))"
| "to_string VNone = str_scalar VNone"
| "to_string (VBool b) = str_scalar (VBool b)"
| "to_string (VInt i) = str_scalar (VInt i)"
| "to_string (VFloat x) = str_scalar (VFloat x)"
| "to_string (VStr s) = str_scalar (VStr s)"
  by pat_completeness auto
termination
proof (relation "measure size")
  show "wf (measure size)" by simp
next
  fix vs :: "pyval list" and x
  assume "x \<in> set vs"
  then show "(x, VList vs) \<in> measure size"
    by (induction vs) auto
next
  fix d :: "(string \<times> pyval) list" and k
  assume "k \<in> set (sort (keys d))"
  then have "k \<in> fst ` set d" by (simp add: keys_def)
  then show "(the (map_of d k), VDict d) \<in> measure size"
    by (induction d) force+
qed

definition DEFAULT_SKIP_KEY :: "string list" where
  "DEFAULT_SKIP_KEY =
     [''task'', ''reward_threshold'', ''logdir'', ''worker'', ''project'', ''group'',
      ''name'', ''prefix'', ''suffix'', ''save_interval'', ''render'', ''verbose'',
      ''save_ckpt'', ''training_num'', ''testing_num'', ''epoch'', ''device'', ''thread'']"

definition DEFAULT_KEY_ABBRE :: "(string \<times> string) list" where
  "DEFAULT_KEY_ABBRE =
     [(''cost_limit'', ''cost''),
      (''mstep_iter_num'', ''mnum''),
      (''estep_iter_num'', ''enum''),
      (''estep_kl'', ''ekl''),
      (''mstep_kl_mu'', ''kl_mu''),
      (''mstep_kl_std'', ''kl_std''),
      (''mstep_dual_lr'', ''mlr''),
      (''estep_dual_lr'', ''elr''),
      (''update_per_step'', ''update'')]"

text \<open>
  \<^verbatim>\<open>uuid.uuid4()\<close> from 16 random bytes (version and variant bits forced), and \<^verbatim>\<open>str\<close> of
  a UUID: 32 lower-case hexadecimal digits in groups of 8, 4, 4, 4 and 12.
\<close>

definition uuid4 :: "128 word \<Rightarrow> 128 word" where
  "uuid4 rnd =
     (((rnd AND NOT (push_bit 48 0xc000)) OR push_bit 48 0x8000)
        AND NOT (push_bit 64 0xf000)) OR push_bit 76 4"

definition hex32 :: "128 word \<Rightarrow> string" where
  "hex32 w =
     map (\<lambda>i. ''0123456789abcdef'' ! unat (drop_bit (4 * (31 - i)) w AND 15)) [0..<32]"

definition str_uuid :: "128 word \<Rightarrow> string" where
  "str_uuid w =
     (let h = hex32 w in
      take 8 h @ ''-'' @ take 4 (drop 8 h) @ ''-'' @ take 4 (drop 12 h) @ ''-'' @
      take 4 (drop 16 h) @ ''-'' @ drop 20 h)"

text \<open>
  The loop of lines 160 to 169 over the sorted keys of \<^verbatim>\<open>default_cfg\<close>, with \<open>name\<close> the
  string built so far. Both subscripts of line 161 are evaluated before the \<^verbatim>\<open>or\<close>.
\<close>

fun auto_name_loop ::
  "config \<Rightarrow> config \<Rightarrow> string list \<Rightarrow> (string \<times> string) list \<Rightarrow>
     string list \<Rightarrow> string \<Rightarrow> exn + string" where
  "auto_name_loop default_cfg current_cfg skip_keys key_abbre [] name = Inr name"
| "auto_name_loop default_cfg current_cfg skip_keys key_abbre (k # ks) name =
     (case map_of default_cfg k of
        None \<Rightarrow> Inl (KeyError k)
      | Some dv \<Rightarrow>
          (case map_of current_cfg k of
             None \<Rightarrow> Inl (KeyError k)
           | Some cv \<Rightarrow>
               (if py_eq dv cv \<or> k \<in> set skip_keys
                then auto_name_loop default_cfg current_cfg skip_keys key_abbre ks name
                else
                  (let prefix = (if length name \<noteq> 0 then ''_'' else '''');
                       val = to_string cv;
                       k' = (case map_of key_abbre k of Some a \<Rightarrow> a | None \<Rightarrow> k)
                   in auto_name_loop default_cfg current_cfg skip_keys key_abbre ks
                        (name @ prefix @ k' @ val)))))"

text \<open>
  \<^verbatim>\<open>auto_name(default_cfg, current_cfg, prefix, suffix, skip_keys, key_abbre)\<close>; \<open>rnd\<close> is
  the randomness \<^verbatim>\<open>uuid.uuid4()\<close> draws.
\<close>

definition auto_name ::
  "config \<Rightarrow> config \<Rightarrow> string \<Rightarrow> string \<Rightarrow> string list \<Rightarrow> (string \<times> string) list \<Rightarrow>
     128 word \<Rightarrow> exn + string" where
  "auto_name default_cfg current_cfg prefix suffix skip_keys key_abbre rnd =
     (case auto_name_loop default_cfg current_cfg skip_keys key_abbre
             (sort (keys default_cfg)) prefix of
        Inl e \<Rightarrow> Inl e
      | Inr name \<Rightarrow>
          (let name = (if length suffix \<noteq> 0
                       then (if length name \<noteq> 0 then name @ ''_'' @ suffix else suffix)
                       else name);
               name = (if \<not> (length name \<noteq> 0) then ''default'' else name);
               name = name @ ''-'' @ take 4 (str_uuid (uuid4 rnd))
           in Inr name))"

section \<open>\<^verbatim>\<open>load_environment\<close>\<close>

text \<open>
  The collaborators of \<^verbatim>\<open>load_environment\<close>, as parameters: importing a module changes
  the world \<open>'w\<close> (it may register environments) or fails; the factory \<^verbatim>\<open>gym.make\<close>
  returns a handle \<open>'h\<close> or raises; \<^verbatim>\<open>configure\<close> and \<^verbatim>\<open>reset\<close> act on the handle.
\<close>

record ('w, 'h) gym_lib =
  json_loads :: "string \<Rightarrow> string + pyval"
  py_import :: "string \<Rightarrow> 'w \<Rightarrow> exn + 'w"
  gym_make :: "pyval \<Rightarrow> pyval \<Rightarrow> 'w \<Rightarrow> exn + 'h"
  env_configure :: "'h \<Rightarrow> config \<Rightarrow> exn + 'h"
  env_reset :: "'h \<Rightarrow> exn + 'h"

text \<open>The environment object: the handle and the attribute set on line 204.\<close>

record 'h env =
  handle :: 'h
  import_module :: pyval

text \<open>
  The argument \<^verbatim>\<open>env_config\<close>: "the configuration, or path to the environment configuration
  file".
\<close>

datatype env_config_arg = Mapping config | Path string

text \<open>
  Lines 194 to 196: a configuration that is not a dictionary is the path of a JSON file,
  which is opened, read and parsed.
\<close>

definition read_env_config ::
  "('w, 'h) gym_lib \<Rightarrow> fs \<Rightarrow> env_config_arg \<Rightarrow> event list \<times> (exn + pyval)" where
  "read_env_config lib f env_config =
     (case env_config of
        Mapping d \<Rightarrow> ([], Inr (VDict d))
      | Path p \<Rightarrow>
          ([Open p],
           case read_file f p of
             Inl e \<Rightarrow> Inl e
           | Inr text \<Rightarrow>
               (case json_loads lib text of
                  Inl m \<Rightarrow> Inl (LibError m)
                | Inr v \<Rightarrow> Inr v)))"

text \<open>Lines 199 to 200: the optional import.\<close>

definition import_registered :: "('w, 'h) gym_lib \<Rightarrow> 'w \<Rightarrow> config \<Rightarrow> exn + 'w" where
  "import_registered lib w env_config =
     (if truthy (dict_get env_config ''import_module'' VNone) then
        (case map_of env_config ''import_module'' of
           None \<Rightarrow> Inl (KeyError ''import_module'')
         | Some (VStr m) \<Rightarrow> py_import lib m w
         | Some v \<Rightarrow> Inl (TypeError ''__import__() argument 1 must be str''))
      else Inr w)"

definition register_id_message :: string where
  "register_id_message = ''The gym register-id of the environment must be provided''"

definition not_registered_template :: string where
  "not_registered_template =
     ''Environment {} not registered. The environment module should be specified by '' @
     ''the \"import_module\" key of the environment configuration''"

text \<open>Lines 201 to 212: the \<^verbatim>\<open>try\<close> statement around the factory call, with its handlers.\<close>

definition make_env ::
  "('w, 'h) gym_lib \<Rightarrow> 'w \<Rightarrow> config \<Rightarrow> pyval \<Rightarrow> event list \<times> (exn + 'h env)" where
  "make_env lib w env_config render_mode =
     (case (case map_of env_config ''id'' of
              None \<Rightarrow> Inl (KeyError ''id'')
            | Some i \<Rightarrow> gym_make lib i render_mode w) of
        Inr h \<Rightarrow>
          ([], Inr \<lparr>handle = h, import_module = dict_get env_config ''import_module'' VNone\<rparr>)
      | Inl (KeyError k) \<Rightarrow> ([], Inl (ValueError register_id_message))
      | Inl (UnregisteredEnv m) \<Rightarrow>
          (case map_of env_config ''import_module'' of
             None \<Rightarrow> ([], Inl (KeyError ''import_module''))
           | Some im \<Rightarrow>
               (case map_of env_config ''id'' of
                  None \<Rightarrow> ([Print [VStr ''import_module'', im]], Inl (KeyError ''id''))
                | Some i \<Rightarrow>
                    ([Print [VStr ''import_module'', im]],
                     Inl (UnregisteredEnv (Format not_registered_template [i])))))
      | Inl e \<Rightarrow> ([], Inl e))"

text \<open>Lines 215 to 221: configuring the environment, if it supports that.\<close>

definition configure_env ::
  "('w, 'h) gym_lib \<Rightarrow> config \<Rightarrow> 'h env \<Rightarrow> event list \<times> (exn + 'h env)" where
  "configure_env lib env_config e =
     (case (case env_configure lib (handle e) env_config of
              Inl x \<Rightarrow> Inl x
            | Inr h \<Rightarrow> env_reset lib h) of
        Inr h \<Rightarrow> ([], Inr (e\<lparr>handle := h\<rparr>))
      | Inl (AttributeError m) \<Rightarrow>
          ([LogInfo (''This environment does not support configuration. '' @ m)], Inr e)
      | Inl x \<Rightarrow> ([], Inl x))"

text \<open>\<^verbatim>\<open>load_environment(env_config, render_mode)\<close>.\<close>

definition load_environment ::
  "('w, 'h) gym_lib \<Rightarrow> fs \<Rightarrow> 'w \<Rightarrow> env_config_arg \<Rightarrow> pyval \<Rightarrow>
     event list \<times> (exn + 'h env)" where
  "load_environment lib f w env_config render_mode =
     (case read_env_config lib f env_config of
        (tr0, Inl e) \<Rightarrow> (tr0, Inl e)
      | (tr0, Inr (VDict d)) \<Rightarrow>
          (case import_registered lib w d of
             Inl e \<Rightarrow> (tr0, Inl e)
           | Inr w' \<Rightarrow>
               (case make_env lib w' d render_mode of
                  (tr, Inl e) \<Rightarrow> (tr0 @ tr, Inl e)
                | (tr, Inr e) \<Rightarrow>
                    (case configure_env lib d e of (tr', r) \<Rightarrow> (tr0 @ tr @ tr', r))))
      | (tr0, Inr v) \<Rightarrow> \<comment> \<open>the parsed JSON is no dictionary: it has no \<^verbatim>\<open>get\<close>\<close>
          (tr0, Inl (AttributeError ''get'')))"

text \<open>
  A small concrete world for running the functions: the module \<^verbatim>\<open>my_envs\<close> registers
  \<^verbatim>\<open>MyEnv-v0\<close> when imported, \<^verbatim>\<open>CartPole-v1\<close> is registered from the start, and no
  environment supports \<^verbatim>\<open>configure\<close>.
\<close>

definition sample_lib :: "(string list, string) gym_lib" where
  "sample_lib =
     \<lparr>json_loads = (\<lambda>text. Inl ''no parser''),
      py_import = (\<lambda>m w. if m = ''my_envs'' then Inr (w @ [''MyEnv-v0''])
                          else Inl (ModuleNotFoundError m)),
      gym_make = (\<lambda>i render_mode w.
                    case i of
                      VStr s \<Rightarrow> if s \<in> set w then Inr s
                                else Inl (UnregisteredEnv (Msg s))
                    | _ \<Rightarrow> Inl (TypeError ''id'')),
      env_configure = (\<lambda>h c. Inl (AttributeError ''configure'')),
      env_reset = (\<lambda>h. Inr h)\<rparr>"

definition sample_fs :: fs where
  "sample_fs =
     \<lparr>dirs = [''runs/exp1'', ''runs/exp1/checkpoint''],
      files = [(''runs/exp1/config.yaml'', ''cost_limit: 5'')]\<rparr>"

definition sample_yaml :: "string \<Rightarrow> string + pyval" where
  "sample_yaml text = Inr (VDict [(''cost_limit'', VInt 5)])"

text \<open>A stand-in for \<^verbatim>\<open>torch.load\<close> whose "model" is the path it was asked to load.\<close>

definition sample_torch :: "string \<Rightarrow> string + string" where
  "sample_torch p = Inr p"

definition good_obj :: obj where
  "good_obj = \<lparr>has_seed = True, seed_raises = None, seeded = []\<rparr>"

definition bad_obj :: obj where
  "bad_obj = \<lparr>has_seed = True, seed_raises = Some (TypeError ''seed''), seeded = []\<rparr>"

text \<open>A store in which the object at reference 1 fails to seed and every other one seeds.\<close>

definition sample_store :: store where
  "sample_store r = (if r = 1 then bad_obj else good_obj)"

definition fresh_rng :: rng_state where
  "fresh_rng =
     \<lparr>random_seed = None, pythonhashseed = None, numpy_seed = None,
      torch_seed = None, cuda_seed = None, cuda_seed_all = None,
      cudnn_benchmark = True, cudnn_deterministic = False\<rparr>"

section \<open>Notions used to state the properties\<close>

text \<open>Strings joined with a single underscore between neighbours.\<close>

fun underscore_join :: "string list \<Rightarrow> string" where
  "underscore_join [] = []"
| "underscore_join [s] = s"
| "underscore_join (s # t # ts) = s @ ''_'' @ underscore_join (t # ts)"

text \<open>An object whose \<^verbatim>\<open>seed\<close> method exists and raises.\<close>

definition seed_fails :: "obj \<Rightarrow> bool" where
  "seed_fails x = (has_seed x \<and> seed_raises x \<noteq> None)"

text \<open>An object after a successful visit of the loop: seeded if it can be.\<close>

definition seed_one :: "int \<Rightarrow> obj \<Rightarrow> obj" where
  "seed_one seed x = (if has_seed x then x\<lparr>seeded := seeded x @ [seed]\<rparr> else x)"

text \<open>The store after a successful visit of the object at \<open>r\<close>.\<close>

definition seed_visit :: "int \<Rightarrow> store \<Rightarrow> ref \<Rightarrow> store" where
  "seed_visit seed h r = h(r := seed_one seed (h r))"

text \<open>The items of a collection that come before the first one that fails to seed.\<close>

definition before_failure :: "store \<Rightarrow> ref list \<Rightarrow> ref list" where
  "before_failure h items = takeWhile (\<lambda>r. \<not> seed_fails (h r)) items"


section \<open>Properties of \<^verbatim>\<open>to_string\<close>\<close>

lemma foldl_enumerate_Suc:
  "foldl (\<lambda>name (i, s). name @ (if i = 0 then [] else ''_'') @ s) acc (enumerate (Suc n) ps)
     = acc @ concat (map (\<lambda>s. ''_'' @ s) ps)"
  by (induction ps arbitrary: acc n) simp_all

lemma join_enum_Nil: "join_enum [] = []"
  by (simp add: join_enum_def)

lemma join_enum_Cons: "join_enum (p # ps) = p @ concat (map (\<lambda>s. ''_'' @ s) ps)"
  using foldl_enumerate_Suc [of p 0 ps] by (simp add: join_enum_def)

lemma underscore_join_Cons:
  "underscore_join (p # ps) = p @ concat (map (\<lambda>s. ''_'' @ s) ps)"
  by (induction ps arbitrary: p) simp_all

lemma join_enum_eq: "join_enum ps = underscore_join ps"
  by (cases ps) (simp_all add: join_enum_Nil join_enum_Cons underscore_join_Cons)

text \<open>
  C3 (as amended). \<^verbatim>\<open>to_string([1, 2, 3])\<close> is \<^verbatim>\<open>"1_2_3"\<close>: for every list, \<open>to_string\<close>
  joins the \<open>to_string\<close> forms of the elements, in order, with one underscore between
  neighbours.
\<close>

theorem to_string_sequence_underscore:
  "to_string (VList [VInt 1, VInt 2, VInt 3]) = ''1_2_3'' \<and>
   to_string (VList vs) = underscore_join (map to_string vs)"
  by (simp add: join_enum_eq str_int_def digits.simps)

theorem to_string_sequence_underscore_witness:
  "to_string (VList [VStr ''a'', VList [VInt 10, VBool True], VNone]) = ''a_10_True_None''"
  using to_string_sequence_underscore [of "[VStr ''a'', VList [VInt 10, VBool True], VNone]"]
  by (simp add: join_enum_eq str_int_def digits.simps)

text \<open>The claim as written, with no separator, fails on its own example.\<close>

theorem to_string_no_separator_counterexample:
  "to_string (VList [VInt 1, VInt 2, VInt 3]) \<noteq> ''123''"
  by (simp add: join_enum_eq str_int_def digits.simps)

lemma sort_keys_eq:
  assumes "distinct (keys a)" "distinct (keys b)" "set a = set b"
  shows "sort (keys a) = sort (keys b)"
proof -
  from assms(3) have "set (keys a) = set (keys b)" by (simp add: keys_def)
  with assms(1,2) show ?thesis
    by (intro sorted_distinct_set_unique) simp_all
qed

lemma map_of_eq:
  assumes "distinct (keys a)" "distinct (keys b)" "set a = set b"
  shows "map_of a = map_of b"
  using assms by (intro map_of_inject_set [THEN iffD2]) (simp_all add: keys_def)

text \<open>
  C9. Two dictionaries with the same key-value associations, entered in different orders,
  have the same \<open>to_string\<close>: the keys are visited in sorted order.
\<close>

theorem to_string_dict_order:
  "distinct (keys a) \<Longrightarrow> distinct (keys b) \<Longrightarrow> set a = set b \<Longrightarrow>
     to_string (VDict a) = to_string (VDict b)"
  by (simp add: sort_keys_eq [of a b] map_of_eq [of a b])

theorem to_string_dict_order_witness:
  "distinct (keys [(''b'', VInt 2), (''a'', VInt 1)]) \<and>
   distinct (keys [(''a'', VInt 1), (''b'', VInt 2)]) \<and>
   set [(''b'', VInt 2), (''a'', VInt 1)] = set [(''a'', VInt 1), (''b'', VInt 2)] \<and>
   to_string (VDict [(''b'', VInt 2), (''a'', VInt 1)])
     = to_string (VDict [(''a'', VInt 1), (''b'', VInt 2)])"
proof -
  have d1: "distinct (keys [(''b'', VInt 2), (''a'', VInt 1)])" by (simp add: keys_def)
  have d2: "distinct (keys [(''a'', VInt 1), (''b'', VInt 2)])" by (simp add: keys_def)
  have s: "set [(''b'', VInt 2), (''a'', VInt 1)] = set [(''a'', VInt 1), (''b'', VInt 2)]"
    by auto
  from to_string_dict_order [OF d1 d2 s] d1 d2 s show ?thesis by blast
qed

section \<open>Properties of \<^verbatim>\<open>auto_name\<close>\<close>









text \<open>
  C8. With default \<^verbatim>\<open>{"cost_limit": 1}\<close>, current \<^verbatim>\<open>{"cost_limit": 5}\<close> and the default
  prefix, suffix, skip list and abbreviation table, \<open>auto_name\<close> returns \<^verbatim>\<open>"cost5"\<close>
  followed by the dash and the random characters: the key is replaced by its abbreviation.
\<close>

theorem auto_name_cost_limit:
  "auto_name [(''cost_limit'', VInt 1)] [(''cost_limit'', VInt 5)] [] []
     DEFAULT_SKIP_KEY DEFAULT_KEY_ABBRE rnd
     = Inr (''cost5'' @ ''-'' @ take 4 (str_uuid (uuid4 rnd)))"
  by (simp add: auto_name_def keys_def DEFAULT_SKIP_KEY_def DEFAULT_KEY_ABBRE_def
      str_int_def digits.simps)

theorem auto_name_cost_limit_witness:
  "auto_name [(''cost_limit'', VInt 1)] [(''cost_limit'', VInt 5)] [] []
     DEFAULT_SKIP_KEY DEFAULT_KEY_ABBRE 0xabcd0000000000000000000000000000
     = Inr ''cost5-abcd''"
  using auto_name_cost_limit [of "0xabcd0000000000000000000000000000"]
  by (simp add: str_uuid_def hex32_def uuid4_def upt_rec)

lemma auto_name_loop_missing:
  "set ks \<subseteq> set (keys d) \<Longrightarrow> \<exists>k\<in>set ks. k \<notin> set (keys c) \<Longrightarrow>
   \<exists>k'. k' \<in> set ks \<and> k' \<notin> set (keys c) \<and>
        auto_name_loop d c skip_keys key_abbre ks name = Inl (KeyError k')"
proof (induction ks arbitrary: name)
  case Nil
  then show ?case by simp
next
  case (Cons k ks)
  from Cons.prems(1) obtain dv where dv: "map_of d k = Some dv"
    by (auto simp: keys_def dest!: weak_map_of_SomeI)
  show ?case
  proof (cases "map_of c k")
    case None
    then have "k \<notin> set (keys c)" by (simp add: keys_def map_of_eq_None_iff)
    with dv None show ?thesis by auto
  next
    case (Some cv)
    then have "k \<in> set (keys c)"
      by (auto simp: keys_def dest: map_of_SomeD intro: rev_image_eqI)
    with Cons.prems have sub: "set ks \<subseteq> set (keys d)"
      and ex: "\<exists>k\<in>set ks. k \<notin> set (keys c)"
      by auto
    from Cons.IH [OF sub ex] dv Some show ?thesis
      by (auto simp: Let_def)
  qed
qed

text \<open>
  C10. When some key of \<^verbatim>\<open>default_cfg\<close> is absent from \<^verbatim>\<open>current_cfg\<close>, \<open>auto_name\<close> raises
  a \<^verbatim>\<open>KeyError\<close> for a missing key instead of returning a name, whatever \<^verbatim>\<open>skip_keys\<close>
  holds: line 161 reads \<^verbatim>\<open>current_cfg[k]\<close> before it tests \<^verbatim>\<open>k in skip_keys\<close>.
\<close>

theorem auto_name_missing_key:
  assumes "k \<in> set (keys default_cfg)" and "k \<notin> set (keys current_cfg)"
  shows "\<exists>k'. k' \<in> set (keys default_cfg) \<and> k' \<notin> set (keys current_cfg) \<and>
           auto_name default_cfg current_cfg prefix suffix skip_keys key_abbre rnd
             = Inl (KeyError k')"
proof -
  have "set (sort (keys default_cfg)) \<subseteq> set (keys default_cfg)" by simp
  moreover from assms
  have "\<exists>k\<in>set (sort (keys default_cfg)). k \<notin> set (keys current_cfg)"
    by auto
  ultimately obtain k' where
    "k' \<in> set (sort (keys default_cfg))" "k' \<notin> set (keys current_cfg)"
    "auto_name_loop default_cfg current_cfg skip_keys key_abbre (sort (keys default_cfg)) prefix
       = Inl (KeyError k')"
    using auto_name_loop_missing by blast
  then show ?thesis by (auto simp: auto_name_def)
qed

theorem auto_name_missing_key_witness:
  "''task'' \<in> set (keys [(''lr'', VInt 1), (''task'', VStr ''a'')]) \<and>
   ''task'' \<notin> set (keys [(''lr'', VInt 2)]) \<and>
   ''task'' \<in> set DEFAULT_SKIP_KEY \<and>
   auto_name [(''lr'', VInt 1), (''task'', VStr ''a'')] [(''lr'', VInt 2)] [] []
     DEFAULT_SKIP_KEY DEFAULT_KEY_ABBRE 0 = Inl (KeyError ''task'')"
  using auto_name_missing_key
    [of "''task''" "[(''lr'', VInt 1), (''task'', VStr ''a'')]" "[(''lr'', VInt 2)]"
        "[]" "[]" DEFAULT_SKIP_KEY DEFAULT_KEY_ABBRE 0]
  by (auto simp: keys_def DEFAULT_SKIP_KEY_def)

section \<open>Properties of \<^verbatim>\<open>seed_all\<close>\<close>

lemma seed_fails_seed_visit: "seed_fails (seed_visit seed h r r') = seed_fails (h r')"
  by (simp add: seed_visit_def seed_one_def seed_fails_def)

lemma before_failure_seed_visit:
  "before_failure (seed_visit seed h r) items = before_failure h items"
  by (simp add: before_failure_def seed_fails_seed_visit)

lemma seed_items_shape:
  "fst (seed_items seed items h) = foldl (seed_visit seed) h (before_failure h items)"
proof (induction items arbitrary: h)
  case Nil
  then show ?case by (simp add: before_failure_def)
next
  case (Cons r items)
  show ?case
  proof (cases "seed_fails (h r)")
    case True
    then show ?thesis
      by (auto simp: before_failure_def seed_fails_def call_seed_def)
  next
    case False
    have step: "fst (seed_items seed (r # items) h)
                  = fst (seed_items seed items (seed_visit seed h r))"
      using False
      by (auto simp: seed_fails_def seed_visit_def seed_one_def call_seed_def
          split: option.splits)
    have "before_failure h (r # items) = r # before_failure h items"
      using False by (simp add: before_failure_def)
    with step Cons.IH [of "seed_visit seed h r"] show ?thesis
      by (simp add: before_failure_seed_visit)
  qed
qed

lemma foldl_seed_visit_other:
  "r \<notin> set rs \<Longrightarrow> foldl (seed_visit seed) h rs r = h r"
  by (induction rs arbitrary: h) (auto simp: seed_visit_def)

text \<open>
  C2 (as amended). With a seed in the range \<^verbatim>\<open>np.random.seed\<close> accepts and a collection
  passed as \<^verbatim>\<open>others\<close>, a failure raised while seeding an item is caught and ignored:
  \<open>seed_all\<close> returns \<^verbatim>\<open>None\<close> normally. The items before the first failing one are seeded;
  the failing item and the items after it are not visited, since the \<^verbatim>\<open>try\<close> statement
  encloses the whole loop, so an object that occurs only there is left as it was.
\<close>

theorem seed_all_collection_stops_at_failure:
  assumes "0 \<le> seed" and "seed < 2 ^ 32"
  shows "seed_all seed (Some (Collection items)) st h
           = (fst (seed_globals seed st),
              foldl (seed_visit seed) h (before_failure h items),
              Inr VNone)
         \<and> (\<forall>r. r \<notin> set (before_failure h items) \<longrightarrow>
                fst (snd (seed_all seed (Some (Collection items)) st h)) r = h r)"
proof -
  have g: "snd (seed_globals seed st) = None"
    using assms by (simp add: seed_globals_def Let_def)
  have "seed_all seed (Some (Collection items)) st h
          = (fst (seed_globals seed st), fst (seed_items seed items h), Inr VNone)"
    using g
    by (cases "seed_globals seed st"; cases "seed_items seed items h")
       (simp add: seed_all_def)
  then have eq: "seed_all seed (Some (Collection items)) st h
          = (fst (seed_globals seed st),
             foldl (seed_visit seed) h (before_failure h items),
             Inr VNone)"
    by (simp add: seed_items_shape)
  then show ?thesis by (simp add: foldl_seed_visit_other)
qed

theorem seed_all_collection_stops_at_failure_witness:
  "(0::int) \<le> 7 \<and> (7::int) < 2 ^ 32 \<and>
   snd (snd (seed_all 7 (Some (Collection [0, 0, 1, 2, 0])) fresh_rng sample_store))
     = Inr VNone \<and>
   seeded (fst (snd (seed_all 7 (Some (Collection [0, 0, 1, 2, 0])) fresh_rng sample_store)) 0)
     = [7, 7] \<and>
   fst (snd (seed_all 7 (Some (Collection [0, 0, 1, 2, 0])) fresh_rng sample_store)) 2
     = sample_store 2"
proof -
  have a: "(0::int) \<le> 7" and b: "(7::int) < 2 ^ 32" by simp_all
  from seed_all_collection_stops_at_failure
         [OF a b, of "[0, 0, 1, 2, 0]" fresh_rng sample_store]
  show ?thesis
    by (simp add: before_failure_def seed_visit_def seed_one_def seed_fails_def
        sample_store_def good_obj_def bad_obj_def)
qed

text \<open>
  The claim as written fails: the object at reference 2 seeds without error, but it is
  not seeded when the item before it raises.
\<close>

theorem seed_all_remaining_items_counterexample:
  "snd (snd (seed_all 1029 (Some (Collection [0, 1, 2])) fresh_rng sample_store))
     = Inr VNone \<and>
   seeded (fst (snd (seed_all 1029 (Some (Collection [0, 1, 2])) fresh_rng sample_store)) 0)
     = [1029] \<and>
   has_seed (sample_store 2) \<and> seed_raises (sample_store 2) = None \<and>
   seeded (fst (snd (seed_all 1029 (Some (Collection [0, 1, 2])) fresh_rng sample_store)) 2)
     = []"
  by (simp add: seed_all_def seed_globals_def call_seed_def sample_store_def
      good_obj_def bad_obj_def Let_def)

text \<open>
  A seed outside the range never reaches \<^verbatim>\<open>others\<close>: the \<^verbatim>\<open>ValueError\<close> of line 29 ends
  the call, with the store untouched.
\<close>

lemma seed_all_seed_out_of_range:
  "seed < 0 \<or> 2 ^ 32 \<le> seed \<Longrightarrow>
   snd (seed_all seed oth st h)
     = (h, Inl (ValueError ''Seed must be between 0 and 2**32 - 1''))"
  by (auto simp: seed_all_def seed_globals_def Let_def)

section \<open>Properties of \<^verbatim>\<open>load_config_and_model\<close>\<close>

lemma model_file_priority:
  "model_file best epoch =
     (if best then ''model_best.pt''
      else case epoch of
             Some n \<Rightarrow> ''model_epoch-'' @ str_int n @ ''.pt''
           | None \<Rightarrow> ''model.pt'')"
  by (simp add: model_file_def)

text \<open>
  C1 (as amended). On an existing directory whose configuration file is read and parsed,
  the checkpoint handed to \<^verbatim>\<open>torch.load\<close> is chosen by the priority: the best flag selects
  \<^verbatim>\<open>model_best.pt\<close> over an epoch number, an epoch number selects \<^verbatim>\<open>model_epoch-<N>.pt\<close>
  over the default, and otherwise \<^verbatim>\<open>model.pt\<close> is used.
\<close>

theorem load_config_and_model_checkpoint_priority:
  assumes "osp_exists f path"
    and "read_file f (osp_join path ''config.yaml'') = Inr text"
    and "yaml_load text = Inr config"
  shows "fst (load_config_and_model yaml_load torch_load f path best epoch)
           = [Print [VStr (''load config from '' @ osp_join path ''config.yaml'')],
              Open (osp_join path ''config.yaml''),
              Print [VStr (''load model from '' @ osp_join path (''checkpoint/'' @
                (if best then ''model_best.pt''
                 else case epoch of
                        Some n \<Rightarrow> ''model_epoch-'' @ str_int n @ ''.pt''
                      | None \<Rightarrow> ''model.pt'')))],
              TorchLoad (osp_join path (''checkpoint/'' @
                (if best then ''model_best.pt''
                 else case epoch of
                        Some n \<Rightarrow> ''model_epoch-'' @ str_int n @ ''.pt''
                      | None \<Rightarrow> ''model.pt'')))]"
  using assms
  by (auto simp: load_config_and_model_def Let_def model_path_def model_file_priority
      split: sum.splits)

theorem load_config_and_model_checkpoint_priority_witness:
  "osp_exists sample_fs ''runs/exp1'' \<and>
   read_file sample_fs (osp_join ''runs/exp1'' ''config.yaml'') = Inr ''cost_limit: 5'' \<and>
   sample_yaml ''cost_limit: 5'' = Inr (VDict [(''cost_limit'', VInt 5)]) \<and>
   fst (load_config_and_model sample_yaml sample_torch sample_fs ''runs/exp1'' False (Some 3))
     = [Print [VStr ''load config from runs/exp1/config.yaml''],
        Open ''runs/exp1/config.yaml'',
        Print [VStr ''load model from runs/exp1/checkpoint/model_epoch-3.pt''],
        TorchLoad ''runs/exp1/checkpoint/model_epoch-3.pt'']"
proof -
  have a: "osp_exists sample_fs ''runs/exp1''"
    by (simp add: osp_exists_def sample_fs_def)
  have b: "read_file sample_fs (osp_join ''runs/exp1'' ''config.yaml'') = Inr ''cost_limit: 5''"
    by (simp add: read_file_def osp_join_def sample_fs_def)
  have c: "sample_yaml ''cost_limit: 5'' = Inr (VDict [(''cost_limit'', VInt 5)])"
    by (simp add: sample_yaml_def)
  from load_config_and_model_checkpoint_priority
         [of sample_fs "''runs/exp1''" "''cost_limit: 5''" sample_yaml
             "VDict [(''cost_limit'', VInt 5)]" sample_torch False "Some 3"] a b c
  have "fst (load_config_and_model sample_yaml sample_torch sample_fs ''runs/exp1'' False (Some 3))
     = [Print [VStr ''load config from runs/exp1/config.yaml''],
        Open ''runs/exp1/config.yaml'',
        Print [VStr ''load model from runs/exp1/checkpoint/model_epoch-3.pt''],
        TorchLoad ''runs/exp1/checkpoint/model_epoch-3.pt'']"
    by (simp add: osp_join_def str_int_def digits.simps)
  with a b c show ?thesis by blast
qed

text \<open>
  The claim as written fails: with both an epoch number and \<^verbatim>\<open>best=True\<close>, the file that
  is loaded is \<^verbatim>\<open>model_best.pt\<close>, not the epoch-specific one.
\<close>

theorem load_config_and_model_epoch_over_best_counterexample:
  "load_config_and_model sample_yaml sample_torch sample_fs ''runs/exp1'' True (Some 3)
     = ([Print [VStr ''load config from runs/exp1/config.yaml''],
         Open ''runs/exp1/config.yaml'',
         Print [VStr ''load model from runs/exp1/checkpoint/model_best.pt''],
         TorchLoad ''runs/exp1/checkpoint/model_best.pt''],
        Inr (VDict [(''cost_limit'', VInt 5)], ''runs/exp1/checkpoint/model_best.pt''))
   \<and> model_file True (Some 3) \<noteq> ''model_epoch-3.pt''"
  by (simp add: load_config_and_model_def sample_yaml_def sample_torch_def sample_fs_def
      osp_exists_def osp_join_def read_file_def model_path_def model_file_def keys_def Let_def)

text \<open>
  C5. For a path that does not exist, \<open>load_config_and_model\<close> raises the \<^verbatim>\<open>ValueError\<close>
  that names the path, and neither opens nor loads any file; for a path that exists, no
  \<^verbatim>\<open>ValueError\<close> is raised.
\<close>

theorem load_config_and_model_missing_path:
  "(\<not> osp_exists f path \<longrightarrow>
      load_config_and_model yaml_load torch_load f path best epoch
        = ([], Inl (ValueError (path @ '' doesn't exist!''))) \<and>
      filter is_file_access
        (fst (load_config_and_model yaml_load torch_load f path best epoch)) = []) \<and>
   (osp_exists f path \<longrightarrow>
      (\<forall>m. snd (load_config_and_model yaml_load torch_load f path best epoch)
              \<noteq> Inl (ValueError m)))"
  by (auto simp: load_config_and_model_def read_file_def Let_def
      split: sum.splits option.splits)

theorem load_config_and_model_missing_path_witness:
  "\<not> osp_exists sample_fs ''runs/exp2'' \<and>
   load_config_and_model sample_yaml sample_torch sample_fs ''runs/exp2'' False None
     = ([], Inl (ValueError ''runs/exp2 doesn't exist!'')) \<and>
   osp_exists sample_fs ''runs/exp1'' \<and>
   snd (load_config_and_model sample_yaml sample_torch sample_fs ''runs/exp1'' False None)
     \<noteq> Inl (ValueError ''runs/exp1 doesn't exist!'')"
proof -
  have n: "\<not> osp_exists sample_fs ''runs/exp2''"
    by (simp add: osp_exists_def sample_fs_def keys_def)
  have y: "osp_exists sample_fs ''runs/exp1''"
    by (simp add: osp_exists_def sample_fs_def keys_def)
  from load_config_and_model_missing_path
         [of sample_fs "''runs/exp2''" sample_yaml sample_torch False None] n
  have 1: "load_config_and_model sample_yaml sample_torch sample_fs ''runs/exp2'' False None
     = ([], Inl (ValueError ''runs/exp2 doesn't exist!''))" by simp
  from load_config_and_model_missing_path
         [of sample_fs "''runs/exp1''" sample_yaml sample_torch False None] y
  have 2: "snd (load_config_and_model sample_yaml sample_torch sample_fs ''runs/exp1'' False None)
     \<noteq> Inl (ValueError ''runs/exp1 doesn't exist!'')" by blast
  from n y 1 2 show ?thesis by blast
qed

section \<open>Properties of \<^verbatim>\<open>load_environment\<close>\<close>

text \<open>
  C6 (as amended). For a configuration mapping without the key \<^verbatim>\<open>id\<close> whose optional
  import is not requested or succeeds, \<open>load_environment\<close> raises the \<^verbatim>\<open>ValueError\<close>
  saying that the gym register-id of the environment must be provided.
\<close>

theorem load_environment_missing_id:
  "map_of d ''id'' = None \<Longrightarrow> import_registered lib w d = Inr w' \<Longrightarrow>
   load_environment lib f w (Mapping d) render_mode
     = ([], Inl (ValueError ''The gym register-id of the environment must be provided''))"
  by (simp add: load_environment_def read_env_config_def make_env_def register_id_message_def)

theorem load_environment_missing_id_witness:
  "map_of [(''import_module'', VStr ''my_envs'')] ''id'' = None \<and>
   import_registered sample_lib [''CartPole-v1''] [(''import_module'', VStr ''my_envs'')]
     = Inr [''CartPole-v1'', ''MyEnv-v0''] \<and>
   load_environment sample_lib sample_fs [''CartPole-v1'']
     (Mapping [(''import_module'', VStr ''my_envs'')]) VNone
     = ([], Inl (ValueError ''The gym register-id of the environment must be provided''))"
proof -
  have a: "map_of [(''import_module'', VStr ''my_envs'')] ''id'' = None" by simp
  have b: "import_registered sample_lib [''CartPole-v1''] [(''import_module'', VStr ''my_envs'')]
     = Inr [''CartPole-v1'', ''MyEnv-v0'']"
    by (simp add: import_registered_def dict_get_def sample_lib_def)
  from load_environment_missing_id [OF a b, of sample_fs VNone] a b show ?thesis
    by blast
qed

text \<open>
  The claim as written fails: the import of line 200 comes before the \<^verbatim>\<open>try\<close> statement,
  so a configuration without \<^verbatim>\<open>id\<close> that names a module which cannot be imported ends in
  the import error.
\<close>

theorem load_environment_missing_id_counterexample:
  "load_environment sample_lib sample_fs [''CartPole-v1'']
     (Mapping [(''import_module'', VStr ''no_such_module'')]) VNone
     = ([], Inl (ModuleNotFoundError ''no_such_module''))"
  by (simp add: load_environment_def read_env_config_def import_registered_def dict_get_def
      sample_lib_def)

text \<open>
  C4. The code at the input where the claim breaks: when the factory reports the
  identifier as unregistered and the configuration has no \<^verbatim>\<open>import_module\<close> entry, the
  subscript inside the handler's \<^verbatim>\<open>print\<close> (line 209) raises \<^verbatim>\<open>KeyError\<close>, and the
  unregistered-environment error with its hint is never raised.
\<close>

theorem load_environment_unregistered_without_import_module:
  "map_of d ''import_module'' = None \<Longrightarrow> map_of d ''id'' = Some i \<Longrightarrow>
   gym_make lib i render_mode w = Inl (UnregisteredEnv m) \<Longrightarrow>
   load_environment lib f w (Mapping d) render_mode = ([], Inl (KeyError ''import_module''))"
  by (simp add: load_environment_def read_env_config_def import_registered_def dict_get_def
      make_env_def)

theorem load_environment_unregistered_without_import_module_witness:
  "map_of [(''id'', VStr ''Foo-v0'')] ''import_module'' = None \<and>
   map_of [(''id'', VStr ''Foo-v0'')] ''id'' = Some (VStr ''Foo-v0'') \<and>
   gym_make sample_lib (VStr ''Foo-v0'') VNone [''CartPole-v1'']
     = Inl (UnregisteredEnv (Msg ''Foo-v0'')) \<and>
   load_environment sample_lib sample_fs [''CartPole-v1''] (Mapping [(''id'', VStr ''Foo-v0'')]) VNone
     = ([], Inl (KeyError ''import_module''))"
proof -
  have a: "map_of [(''id'', VStr ''Foo-v0'')] ''import_module'' = None" by simp
  have b: "map_of [(''id'', VStr ''Foo-v0'')] ''id'' = Some (VStr ''Foo-v0'')" by simp
  have c: "gym_make sample_lib (VStr ''Foo-v0'') VNone [''CartPole-v1'']
     = Inl (UnregisteredEnv (Msg ''Foo-v0''))"
    by (simp add: sample_lib_def)
  from load_environment_unregistered_without_import_module [OF a b c, of sample_fs] a b c
  show ?thesis by blast
qed

text \<open>
  With an \<^verbatim>\<open>import_module\<close> entry present, the handler does what it is written for: it
  prints the entry and raises the unregistered-environment error whose text names the
  \<^verbatim>\<open>import_module\<close> key.
\<close>

lemma load_environment_unregistered_with_import_module:
  "map_of d ''import_module'' = Some im \<Longrightarrow> map_of d ''id'' = Some i \<Longrightarrow>
   import_registered lib w d = Inr w' \<Longrightarrow>
   gym_make lib i render_mode w' = Inl (UnregisteredEnv m) \<Longrightarrow>
   load_environment lib f w (Mapping d) render_mode
     = ([Print [VStr ''import_module'', im]],
        Inl (UnregisteredEnv (Format not_registered_template [i])))"
  by (simp add: load_environment_def read_env_config_def make_env_def)

end
